theory Spec2Isabelle
  imports Complex_Main "HOL-Library.Word"
begin

section \<open>Host values and the host runtime\<close>

text \<open>
  The host number type \<open>i_float\<close> is a C double; a finite double is modelled by the real number
  it denotes. Strings are byte sequences with an explicit length.
\<close>

type_synonym i_float = real

datatype i_val =
    Null
  | Number i_float
  | Str string
  | Array "i_val list"
  | Table "(i_val \<times> i_val) list"
  | Err string
  | ExtFn nat
  | Object nat

text \<open>
  What \<open>beryl.h\<close> and the C platform supply and \<open>beryl_sql.c\<close> only uses: the largest
  \<open>i_size\<close>, the largest integer a host number holds, the host's integer test on numbers, and the
  \<open>int\<close> a platform produces when a double outside the range of \<open>int\<close> is converted (the C
  standard leaves that conversion undefined).
\<close>

record host =
  I_SIZE_MAX :: nat
  BERYL_NUM_MAX_INT :: int
  beryl_is_integer :: "i_float \<Rightarrow> bool"
  int_conv_undefined :: "i_float \<Rightarrow> 32 word"

definition INT_MAX :: nat where
  "INT_MAX = 2147483647"

text \<open>The conversion \<open>(unsigned) n\<close> of a C \<open>int\<close>.\<close>

definition unsigned_int :: "int \<Rightarrow> nat" where
  "unsigned_int n = nat (n mod 2 ^ 32)"

text \<open>
  The implicit conversion of a double to the \<open>int\<close> parameter of \<open>sqlite3_bind_int\<close>: the
  fraction is discarded; a value that does not fit is whatever the platform gives.
\<close>

definition int_of_double :: "host \<Rightarrow> i_float \<Rightarrow> 32 word" where
  "int_of_double h d =
     (let t = (if 0 \<le> d then \<lfloor>d\<rfloor> else \<lceil>d\<rceil>)
      in if - (2 ^ 31) \<le> t \<and> t < 2 ^ 31 then word_of_int t else int_conv_undefined h d)"

text \<open>
  The conversion of a 64-bit integer to a double (\<open>sqlite3_column_double\<close> on an INTEGER
  column, \<open>BERYL_NUMBER\<close> on an \<open>sqlite3_int64\<close>): 53 significant bits are kept, rounding to
  nearest, ties to even. \<open>ulp_of a\<close> is the weight of the last kept bit.
\<close>

function ulp_of :: "nat \<Rightarrow> nat" where
  "ulp_of a = (if a < 2 ^ 53 then 1 else 2 * ulp_of (a div 2))"
  by pat_completeness auto
termination
  by (relation "measure id") auto

declare ulp_of.simps [simp del]

definition double_of_int :: "int \<Rightarrow> i_float" where
  "double_of_int v =
     (let a = nat \<bar>v\<bar>; u = ulp_of a; q = a div u; r = a mod u;
          q' = (if u < 2 * r \<or> (2 * r = u \<and> odd q) then q + 1 else q)
      in of_int (sgn v * int (q' * u)))"

subsection \<open>Allocation, ownership and blame\<close>

text \<open>
  The resources a script call owns, and the record of what happened to them. \<open>RStmt k\<close> is the
  statement handle of the \<open>k\<close>-th statement of the script, \<open>RColName k i\<close> its \<open>i\<close>-th column
  descriptor, \<open>RColBuf k\<close> the buffer holding the descriptors, \<open>RRows\<close> the result collection and
  \<open>RConn d\<close> the native connection \<open>d\<close>.
\<close>

datatype resource = RStmt nat | RRows | RColName nat nat | RColBuf nat | RConn nat

datatype event = Acquire resource | Release resource

record beryl_sqldb_object =
  db :: "nat option"

datatype beryl_object = SqldbObject beryl_sqldb_object | OtherObject

text \<open>
  The state around a call: \<open>oom\<close> lists, for the allocations still to come, whether each one
  fails (none left: the allocation succeeds); \<open>trace\<close> is the ownership record; \<open>blamed\<close> is the
  diagnostics channel; \<open>objects\<close> is the host's object store.
\<close>

record world =
  oom :: "bool list"
  trace :: "event list"
  blamed :: "i_val list"
  objects :: "nat \<Rightarrow> beryl_object option"

definition alloc :: "world \<Rightarrow> bool \<times> world" where
  "alloc w = (case oom w of [] \<Rightarrow> (True, w) | b # bs \<Rightarrow> (\<not> b, w\<lparr>oom := bs\<rparr>))"

definition log_event :: "event \<Rightarrow> world \<Rightarrow> world" where
  "log_event ev w = w\<lparr>trace := trace w @ [ev]\<rparr>"

definition beryl_blame_arg :: "i_val \<Rightarrow> world \<Rightarrow> world" where
  "beryl_blame_arg v w = w\<lparr>blamed := blamed w @ [v]\<rparr>"

text \<open>\<open>beryl_new_string\<close> copies the bytes; it gives the null value when out of memory.\<close>

definition beryl_new_string :: "world \<Rightarrow> string \<Rightarrow> i_val \<times> world" where
  "beryl_new_string w s = (let (ok, w1) = alloc w in if ok then (Str s, w1) else (Null, w1))"

text \<open>
  Modelled from the spec: \<open>beryl_table_insert\<close> of the host runtime, which is outside this
  repository. A table is an ordered mapping that preserves insertion order and whose keys need not
  be unique at the API, so an insertion appends the entry.
\<close>

definition beryl_table_insert :: "(i_val \<times> i_val) list \<Rightarrow> i_val \<Rightarrow> i_val \<Rightarrow> (i_val \<times> i_val) list" where
  "beryl_table_insert table key val = table @ [(key, val)]"

section \<open>The engine\<close>

text \<open>Result codes and the limit category of \<open>sqlite3.h\<close>.\<close>

definition SQLITE_OK :: int where "SQLITE_OK = 0"
definition SQLITE_ERROR :: int where "SQLITE_ERROR = 1"
definition SQLITE_BUSY :: int where "SQLITE_BUSY = 5"
definition SQLITE_TOOBIG :: int where "SQLITE_TOOBIG = 18"
definition SQLITE_RANGE :: int where "SQLITE_RANGE = 25"
definition SQLITE_ROW :: int where "SQLITE_ROW = 100"
definition SQLITE_DONE :: int where "SQLITE_DONE = 101"

text \<open>
  \<open>SQLITE_LIMIT_VARIABLE_NUMBER\<close> is the identifier of a limit category, the argument with which
  \<open>sqlite3_limit\<close> is asked for the largest parameter index; \<open>sqlite3.h\<close> defines it as 9.
\<close>

definition SQLITE_LIMIT_VARIABLE_NUMBER :: nat where
  "SQLITE_LIMIT_VARIABLE_NUMBER = 9"

datatype sql_value =
    SQLITE_NULL
  | SQLITE_INTEGER "64 word"
  | SQLITE_FLOAT i_float
  | SQLITE_TEXT string
  | SQLITE_BLOB string

datatype sql_param = BindNull | BindInt "32 word" | BindDouble i_float | BindText string

text \<open>
  A prepared statement as the binding sees it: the code each bind call returns, the parameters
  bound so far, the name of each result column (\<open>None\<close>: the engine could not allocate it), and
  the outcome of each successive \<open>sqlite3_step\<close> (result code and current row), which depends
  on the bound parameters.
\<close>

record sqlite3_stmt =
  bind_rc :: "nat \<Rightarrow> sql_param \<Rightarrow> int"
  bound :: "nat \<Rightarrow> sql_param option"
  column_name :: "string option list"
  step_results :: "(nat \<Rightarrow> sql_param option) \<Rightarrow> (int \<times> sql_value list) list"

text \<open>
  A connection as the binding sees it. \<open>sqlite3_prepare_v2\<close> gives the result code, the
  statement and the unparsed tail of the text; \<open>max_variable_number\<close> is the engine's largest
  bindable parameter count, which \<open>sqlite3_limit\<close> would report.
\<close>

record engine =
  sqlite3_prepare_v2 :: "nat \<Rightarrow> string \<Rightarrow> int \<times> sqlite3_stmt \<times> string"
  sqlite3_errstr :: "int \<Rightarrow> string"
  sqlite3_close :: "nat option \<Rightarrow> int"
  sqlite3_last_insert_rowid :: "nat option \<Rightarrow> 64 word"
  max_variable_number :: nat

definition sqlite3_bind :: "sqlite3_stmt \<Rightarrow> nat \<Rightarrow> sql_param \<Rightarrow> int \<times> sqlite3_stmt" where
  "sqlite3_bind stmt i p =
     (let rc = bind_rc stmt i p
      in (rc, if rc = SQLITE_OK then stmt\<lparr>bound := (bound stmt)(i \<mapsto> p)\<rparr> else stmt))"

definition sqlite3_column_count :: "sqlite3_stmt \<Rightarrow> int" where
  "sqlite3_column_count stmt = int (length (column_name stmt))"

text \<open>A column index outside the row reads as NULL.\<close>

definition sqlite3_column :: "sql_value list \<Rightarrow> nat \<Rightarrow> sql_value" where
  "sqlite3_column row i = (if i < length row then row ! i else SQLITE_NULL)"

definition sqlite3_column_bytes :: "string \<Rightarrow> int" where
  "sqlite3_column_bytes s = int (length s)"

section \<open>Value bridge\<close>

definition bind_i_val_as_sql_param :: "host \<Rightarrow> sqlite3_stmt \<Rightarrow> nat \<Rightarrow> i_val \<Rightarrow> int \<times> sqlite3_stmt" where
  "bind_i_val_as_sql_param h stmt i val =
     (case val of
        Str s \<Rightarrow>
          if length s > INT_MAX then (SQLITE_TOOBIG, stmt)
          else sqlite3_bind stmt i (BindText s)
      | Null \<Rightarrow> sqlite3_bind stmt i BindNull
      | Number d \<Rightarrow>
          if beryl_is_integer h d then sqlite3_bind stmt i (BindInt (int_of_double h d))
          else sqlite3_bind stmt i (BindDouble d)
      | _ \<Rightarrow> sqlite3_bind stmt i (BindText ''Unkown''))"

definition cstr_to_beryl_str :: "host \<Rightarrow> world \<Rightarrow> string option \<Rightarrow> i_val \<times> world" where
  "cstr_to_beryl_str h w cstr =
     (case cstr of
        None \<Rightarrow> (Null, w)
      | Some s \<Rightarrow> if length s > I_SIZE_MAX h then (Null, w) else beryl_new_string w s)"

text \<open>
  The switch of \<open>create_table_from_row\<close> on the column type: \<open>Inl\<close> is the early return with an
  error, \<open>Inr\<close> the column value. INTEGER and FLOAT share the \<open>sqlite3_column_double\<close> branch.
  The five column types are all there are, so the \<open>default\<close> branch has no counterpart. The
  table under construction and the strings in it are not in the ownership record: the record
  follows the four resources the script loop owns.
\<close>

definition create_table_from_row_bytes :: "host \<Rightarrow> string \<Rightarrow> world \<Rightarrow> (i_val + i_val) \<times> world" where
  "create_table_from_row_bytes h s w =
     (let len = sqlite3_column_bytes s
      in if unsigned_int len > I_SIZE_MAX h then (Inl (Err ''Text/blob too large''), w)
         else let (column_val, w1) = beryl_new_string w (take (nat len) s)
              in if column_val = Null then (Inl (Err ''Out of memory''), w1)
                 else (Inr column_val, w1))"

definition create_table_from_row_column :: "host \<Rightarrow> sql_value \<Rightarrow> world \<Rightarrow> (i_val + i_val) \<times> world" where
  "create_table_from_row_column h v w =
     (case v of
        SQLITE_NULL \<Rightarrow> (Inr Null, w)
      | SQLITE_INTEGER x \<Rightarrow> (Inr (Number (double_of_int (sint x))), w)
      | SQLITE_FLOAT d \<Rightarrow> (Inr (Number d), w)
      | SQLITE_TEXT s \<Rightarrow> create_table_from_row_bytes h s w
      | SQLITE_BLOB s \<Rightarrow> create_table_from_row_bytes h s w)"

text \<open>
  The column loop. \<open>None\<close> is a read of \<open>column_names[i]\<close> outside the array, which C leaves
  undefined.
\<close>

function create_table_from_row_loop ::
  "host \<Rightarrow> sql_value list \<Rightarrow> int \<Rightarrow> i_val list \<Rightarrow> nat \<Rightarrow> (i_val \<times> i_val) list \<Rightarrow> world
     \<Rightarrow> i_val option \<times> world" where
  "create_table_from_row_loop h row n_columns column_names i table w =
     (if int i < n_columns then
        (case create_table_from_row_column h (sqlite3_column row i) w of
           (Inl err, w1) \<Rightarrow> (Some err, w1)
         | (Inr column_val, w1) \<Rightarrow>
             if i < length column_names
             then create_table_from_row_loop h row n_columns column_names (Suc i)
                    (beryl_table_insert table (column_names ! i) column_val) w1
             else (None, w1))
      else (Some (Table table), w))"
  by pat_completeness auto
termination
  by (relation "measure (\<lambda>(h, row, n_columns, column_names, i, table, w). nat (n_columns - int i))") auto

declare create_table_from_row_loop.simps [simp del]

definition create_table_from_row ::
  "host \<Rightarrow> sql_value list \<Rightarrow> int \<Rightarrow> i_val list \<Rightarrow> world \<Rightarrow> i_val option \<times> world" where
  "create_table_from_row h row n_columns column_names w =
     (if unsigned_int n_columns > I_SIZE_MAX h then (Some (Err ''Too many columns''), w)
      else let (ok, w1) = alloc w
           in if \<not> ok then (Some (Err ''Out of memory''), w1)
              else create_table_from_row_loop h row n_columns column_names 0 [] w1)"

section \<open>Statement executor and script runner\<close>

text \<open>
  \<open>blame_sql_error\<close> puts the engine's message for a result code on the diagnostics channel;
  the message string is released again at once.
\<close>

definition blame_sql_error :: "engine \<Rightarrow> int \<Rightarrow> world \<Rightarrow> world" where
  "blame_sql_error e err w =
     (let (err_str, w1) = beryl_new_string w (sqlite3_errstr e err)
      in if err_str = Null
         then beryl_blame_arg
                (Str ''Unable to show error message (out of memory, unable to allocate string)'') w1
         else beryl_blame_arg err_str w1)"

definition sqlite3_finalize :: "nat \<Rightarrow> world \<Rightarrow> world" where
  "sqlite3_finalize k w = log_event (Release (RStmt k)) w"

definition beryl_release_rows :: "world \<Rightarrow> world" where
  "beryl_release_rows w = log_event (Release RRows) w"

definition beryl_tfree :: "nat \<Rightarrow> world \<Rightarrow> world" where
  "beryl_tfree k w = log_event (Release (RColBuf k)) w"

text \<open>
  \<open>beryl_release\<close> on entry \<open>i\<close> of the column descriptors of statement \<open>k\<close>. Releasing the
  null value does nothing.
\<close>

definition beryl_release_column_name :: "nat \<Rightarrow> nat \<Rightarrow> i_val \<Rightarrow> world \<Rightarrow> world" where
  "beryl_release_column_name k i v w = (if v = Null then w else log_event (Release (RColName k i)) w)"

text \<open>The loop \<open>for(i = 0; i < n_columns; i++) beryl_release(column_names[i])\<close>.\<close>

fun release_column_names :: "nat \<Rightarrow> nat \<Rightarrow> i_val list \<Rightarrow> world \<Rightarrow> world" where
  "release_column_names k i [] w = w"
| "release_column_names k i (v # vs) w =
     release_column_names k (Suc i) vs (beryl_release_column_name k i v w)"

text \<open>
  The loop \<open>for(j = i - 1; j >= 0; j--) beryl_release(column_names[i])\<close> of the failure branch
  of the descriptor loop: it runs \<open>i\<close> times and releases entry \<open>i\<close> each time.
\<close>

fun release_after_failed_name :: "nat \<Rightarrow> nat \<Rightarrow> i_val \<Rightarrow> nat \<Rightarrow> world \<Rightarrow> world" where
  "release_after_failed_name k i v 0 w = w"
| "release_after_failed_name k i v (Suc j) w =
     release_after_failed_name k i v j (beryl_release_column_name k i v w)"

text \<open>The parameter loop \<open>for(i = 1; i < n_args; i++)\<close>: the first bind error, or 0.\<close>

function bind_params :: "host \<Rightarrow> sqlite3_stmt \<Rightarrow> i_val list \<Rightarrow> nat \<Rightarrow> int \<times> sqlite3_stmt" where
  "bind_params h stmt args i =
     (if i < length args then
        (let (err, stmt1) = bind_i_val_as_sql_param h stmt i (args ! i)
         in if err \<noteq> 0 then (err, stmt1) else bind_params h stmt1 args (Suc i))
      else (0, stmt))"
  by pat_completeness auto
termination
  by (relation "measure (\<lambda>(h, stmt, args, i). length args - i)") auto

declare bind_params.simps [simp del]

text \<open>
  The descriptor loop: \<open>Inl\<close> is the state after the cleanup of its out-of-memory branch,
  \<open>Inr\<close> the filled array.
\<close>

function column_names_loop ::
  "host \<Rightarrow> sqlite3_stmt \<Rightarrow> nat \<Rightarrow> int \<Rightarrow> nat \<Rightarrow> i_val list \<Rightarrow> world \<Rightarrow> world + (i_val list \<times> world)" where
  "column_names_loop h stmt k n_columns i column_names w =
     (if int i < n_columns then
        (let (v, w1) = cstr_to_beryl_str h w
                         (if i < length (column_name stmt) then column_name stmt ! i else None)
         in if v = Null
            then Inl (beryl_release_rows (sqlite3_finalize k (beryl_tfree k
                   (release_after_failed_name k i v i w1))))
            else column_names_loop h stmt k n_columns (Suc i) (column_names @ [v])
                   (log_event (Acquire (RColName k i)) w1))
      else Inr (column_names, w))"
  by pat_completeness auto
termination
  by (relation "measure (\<lambda>(h, stmt, k, n_columns, i, column_names, w). nat (n_columns - int i))") auto

declare column_names_loop.simps [simp del]

text \<open>
  The row loop over the outcomes of \<open>sqlite3_step\<close>: \<open>Inl\<close> is the error returned from inside the
  loop, \<open>Inr\<close> the rows when the statement is done. \<open>None\<close> is passed on from
  \<open>create_table_from_row\<close>.
\<close>

fun step_loop ::
  "host \<Rightarrow> engine \<Rightarrow> nat \<Rightarrow> int \<Rightarrow> i_val list \<Rightarrow> (int \<times> sql_value list) list \<Rightarrow> i_val list \<Rightarrow> world
     \<Rightarrow> ((i_val + i_val list) \<times> world) option" where
  "step_loop h e k n_columns column_names [] rows w = Some (Inr rows, w)"
| "step_loop h e k n_columns column_names ((res, row) # rest) rows w =
     (if res = SQLITE_DONE then Some (Inr rows, w)
      else if res = SQLITE_BUSY then
        Some (Inl (Err ''Database is busy (timeout)''),
              beryl_tfree k (release_column_names k 0 (take (nat n_columns) column_names)
                (beryl_release_rows (sqlite3_finalize k w))))
      else if res \<noteq> SQLITE_ROW then
        Some (Inl (Err ''SQL error''),
              blame_sql_error e res
                (beryl_tfree k (release_column_names k 0 (take (nat n_columns) column_names)
                  (beryl_release_rows (sqlite3_finalize k w)))))
      else
        (case create_table_from_row h row n_columns column_names w of
           (None, w1) \<Rightarrow> None
         | (Some r, w1) \<Rightarrow>
             (case r of
                Err msg \<Rightarrow>
                  Some (Inl (Err msg),
                        release_column_names k 0 (take (nat n_columns) column_names)
                          (beryl_release_rows (sqlite3_finalize k w1)))
              | _ \<Rightarrow>
                  (let (ok, w2) = alloc w1
                   in if \<not> ok then
                        Some (Inl (Err ''Out of memory''),
                              release_column_names k 0 (take (nat n_columns) column_names)
                                (beryl_release_rows (sqlite3_finalize k w2)))
                      else step_loop h e k n_columns column_names rest (rows @ [r]) w2))))"

text \<open>
  The statement loop \<open>while(expr != expr_end)\<close>. \<open>k\<close> counts the statements prepared so far.
  The loop ends only when the engine consumes the text, so it is run on fuel: \<open>None\<close> is a run
  that has not returned within the fuel (or an undefined read, see above).
\<close>

fun beryl_sqldb_object_call_loop ::
  "host \<Rightarrow> engine \<Rightarrow> nat \<Rightarrow> i_val list \<Rightarrow> nat \<Rightarrow> nat \<Rightarrow> string \<Rightarrow> i_val list \<Rightarrow> world
     \<Rightarrow> (i_val \<times> world) option" where
  "beryl_sqldb_object_call_loop h e d args 0 k expr rows w = None"
| "beryl_sqldb_object_call_loop h e d args (Suc fuel) k expr rows w =
     (if expr = [] then Some (Array rows, w)
      else
        (case sqlite3_prepare_v2 e d expr of (err, stmt, tail) \<Rightarrow>
           if err \<noteq> SQLITE_OK then Some (Err ''SQL compiler error'', blame_sql_error e err w)
           else
             (let w1 = log_event (Acquire (RStmt k)) w;
                  (berr, stmt1) = bind_params h stmt args 1
              in if berr \<noteq> 0 then
                   Some (Err ''SQL parameter error'',
                         blame_sql_error e berr (beryl_release_rows (sqlite3_finalize k w1)))
                 else
                   (let n_columns = sqlite3_column_count stmt1;
                        (ok, w2) = alloc w1
                    in if \<not> ok then
                         Some (Err ''Out of memory'', beryl_release_rows (sqlite3_finalize k w2))
                       else
                         (case column_names_loop h stmt1 k n_columns 0 []
                                 (log_event (Acquire (RColBuf k)) w2) of
                            Inl w3 \<Rightarrow> Some (Err ''Out of memory'', w3)
                          | Inr (column_names, w3) \<Rightarrow>
                              (case step_loop h e k n_columns column_names
                                      (step_results stmt1 (bound stmt1)) rows w3 of
                                 None \<Rightarrow> None
                               | Some (Inl er, w4) \<Rightarrow> Some (er, w4)
                               | Some (Inr rows1, w4) \<Rightarrow>
                                   beryl_sqldb_object_call_loop h e d args fuel (Suc k) tail rows1
                                     (sqlite3_finalize k
                                        (release_column_names k 0
                                           (take (nat n_columns) column_names) w4))))))))"

text \<open>
  Invoking a database handle. \<open>None\<close> for an empty argument array is the read of \<open>args[0]\<close>
  outside it.
\<close>

definition beryl_sqldb_object_call ::
  "host \<Rightarrow> engine \<Rightarrow> nat \<Rightarrow> beryl_sqldb_object \<Rightarrow> i_val list \<Rightarrow> world \<Rightarrow> (i_val \<times> world) option" where
  "beryl_sqldb_object_call h e fuel db_obj args w =
     (case db db_obj of
        None \<Rightarrow> Some (Err ''Database has been closed'', w)
      | Some d \<Rightarrow>
          (case args of
             [] \<Rightarrow> None
           | a0 # params \<Rightarrow>
               (case a0 of
                  Str expr \<Rightarrow>
                    if length params > SQLITE_LIMIT_VARIABLE_NUMBER
                    then Some (Err ''Too many parameters'', w)
                    else
                      (let (ok, w1) = alloc w
                       in if \<not> ok then Some (Err ''Out of memory'', w1)
                          else beryl_sqldb_object_call_loop h e d args fuel 0 expr []
                                 (log_event (Acquire RRows) w1))
                | _ \<Rightarrow>
                    Some (Err ''Expected SQL query (a string) as first argument'',
                          beryl_blame_arg a0 w))))"

section \<open>Database handle lifecycle\<close>

text \<open>
  \<open>beryl_object_class_type\<close> of a host value, as far as the callbacks use it: whether the value
  is an object of the class \<open>sqldb\<close>, and then the object.
\<close>

definition as_sqldb_object :: "world \<Rightarrow> i_val \<Rightarrow> beryl_sqldb_object option" where
  "as_sqldb_object w v =
     (case v of
        Object r \<Rightarrow> (case objects w r of Some (SqldbObject o1) \<Rightarrow> Some o1 | _ \<Rightarrow> None)
      | _ \<Rightarrow> None)"

definition set_db :: "i_val \<Rightarrow> nat option \<Rightarrow> world \<Rightarrow> world" where
  "set_db v x w =
     (case v of
        Object r \<Rightarrow> w\<lparr>objects := (objects w)(r \<mapsto> SqldbObject \<lparr>db = x\<rparr>)\<rparr>
      | _ \<Rightarrow> w)"

text \<open>
  The engine's close call on the stored handle. A successful close of a connection releases it;
  the call on the null pointer has no connection to release.
\<close>

definition call_sqlite3_close :: "engine \<Rightarrow> nat option \<Rightarrow> world \<Rightarrow> int \<times> world" where
  "call_sqlite3_close e x w =
     (let err = sqlite3_close e x
      in (err, case x of
                 Some d \<Rightarrow> if err = SQLITE_OK then log_event (Release (RConn d)) w else w
               | None \<Rightarrow> w))"

text \<open>The type error of \<open>close\<close> and of \<open>get-last-insert-rowid\<close> (the same text in both).\<close>

definition expected_database_object :: string where
  "expected_database_object =
     ''Expected database object as argument for '' @ [CHR 0x27] @ ''close'' @ [CHR 0x27]"

definition close_callback :: "engine \<Rightarrow> i_val list \<Rightarrow> world \<Rightarrow> (i_val \<times> world) option" where
  "close_callback e args w =
     (case args of
        [] \<Rightarrow> None
      | a0 # rest \<Rightarrow>
          (case as_sqldb_object w a0 of
             None \<Rightarrow> Some (Err expected_database_object, beryl_blame_arg a0 w)
           | Some obj \<Rightarrow>
               (let (err, w1) = call_sqlite3_close e (db obj) w
                in if err \<noteq> SQLITE_OK then Some (Err ''Unable to close database'', w1)
                   else Some (Null, set_db a0 None w1))))"

definition get_last_insert_rowid_callback ::
  "host \<Rightarrow> engine \<Rightarrow> i_val list \<Rightarrow> world \<Rightarrow> (i_val \<times> world) option" where
  "get_last_insert_rowid_callback h e args w =
     (case args of
        [] \<Rightarrow> None
      | a0 # rest \<Rightarrow>
          (case as_sqldb_object w a0 of
             None \<Rightarrow> Some (Err expected_database_object, beryl_blame_arg a0 w)
           | Some obj \<Rightarrow>
               (let id = sint (sqlite3_last_insert_rowid e (db obj))
                in if id > BERYL_NUM_MAX_INT h then Some (Err ''Id out of range'', w)
                   else Some (Number (double_of_int id), w))))"

text \<open>The host invoking the handle stored at a reference of the object store.\<close>

definition invoke :: "host \<Rightarrow> engine \<Rightarrow> nat \<Rightarrow> i_val \<Rightarrow> i_val list \<Rightarrow> world \<Rightarrow> (i_val \<times> world) option" where
  "invoke h e fuel v args w =
     (case as_sqldb_object w v of
        None \<Rightarrow> None
      | Some obj \<Rightarrow> beryl_sqldb_object_call h e fuel obj args w)"

section \<open>A host, an engine and object stores to run the binding on\<close>

definition world0 :: world where
  "world0 = \<lparr>oom = [], trace = [], blamed = [], objects = (\<lambda>r. None)\<rparr>"

text \<open>
  A 64-bit host: sizes up to \<open>2^64 - 1\<close>, integers up to \<open>2^53\<close>, a number is an integer when
  its value is one, and a conversion out of the range of \<open>int\<close> gives \<open>INT_MIN\<close> (what x86-64
  does).
\<close>

definition example_host :: host where
  "example_host =
     \<lparr>I_SIZE_MAX = 18446744073709551615, BERYL_NUM_MAX_INT = 9007199254740992,
      beryl_is_integer = (\<lambda>d. d \<in> \<int>), int_conv_undefined = (\<lambda>d. - 2147483648)\<rparr>"

text \<open>
  The statement \<open>SELECT ?\<close> on an engine whose length limit is \<open>max_len\<close> bytes: one
  parameter, one column, one row holding the value bound to the parameter. A bind at another index is out
  of range; a text longer than the limit is refused with \<open>SQLITE_TOOBIG\<close>. A bound \<open>int\<close> is
  stored as a 64-bit INTEGER, a double as a FLOAT, a text as TEXT; an unbound parameter is NULL.
\<close>

fun column_of_param :: "sql_param option \<Rightarrow> sql_value" where
  "column_of_param None = SQLITE_NULL"
| "column_of_param (Some BindNull) = SQLITE_NULL"
| "column_of_param (Some (BindInt x)) = SQLITE_INTEGER (scast x)"
| "column_of_param (Some (BindDouble d)) = SQLITE_FLOAT d"
| "column_of_param (Some (BindText s)) = SQLITE_TEXT s"

fun param_bytes :: "sql_param \<Rightarrow> nat" where
  "param_bytes (BindText s) = length s"
| "param_bytes p = 0"

definition select_param_stmt_limit :: "nat \<Rightarrow> sqlite3_stmt" where
  "select_param_stmt_limit max_len =
     \<lparr>bind_rc = (\<lambda>i p. if i \<noteq> 1 then SQLITE_RANGE
                        else if max_len < param_bytes p then SQLITE_TOOBIG
                        else SQLITE_OK),
      bound = (\<lambda>i. None),
      column_name = [Some ''?''],
      step_results = (\<lambda>b. [(SQLITE_ROW, [column_of_param (b 1)]), (SQLITE_DONE, [])])\<rparr>"

text \<open>
  An engine with that length limit that compiles the text \<open>SELECT ?\<close> and rejects every other
  text, closes every connection (the close of the null pointer is the engine's documented no-op,
  also \<open>SQLITE_OK\<close>) and accepts 999 parameters.
\<close>

definition select_param_engine_limit :: "nat \<Rightarrow> engine" where
  "select_param_engine_limit max_len =
     \<lparr>sqlite3_prepare_v2 =
        (\<lambda>d sql. if sql = ''SELECT ?'' then (SQLITE_OK, select_param_stmt_limit max_len, [])
                  else (SQLITE_ERROR, select_param_stmt_limit max_len, [])),
      sqlite3_errstr = (\<lambda>rc. if rc = SQLITE_OK then ''not an error'' else ''SQL logic error''),
      sqlite3_close = (\<lambda>x. SQLITE_OK),
      sqlite3_last_insert_rowid = (\<lambda>x. 0),
      max_variable_number = 999\<rparr>"

text \<open>The engine's default length limit is 1,000,000,000 bytes.\<close>

definition select_param_stmt :: sqlite3_stmt where
  "select_param_stmt = select_param_stmt_limit 1000000000"

definition select_param_engine :: engine where
  "select_param_engine = select_param_engine_limit 1000000000"

text \<open>An object store with one open handle, and the store after its successful close.\<close>

definition open_world :: world where
  "open_world =
     world0\<lparr>objects := (\<lambda>r. if r = 0 then Some (SqldbObject \<lparr>db = Some 7\<rparr>) else None)\<rparr>"

definition closed_world :: world where
  "closed_world = set_db (Object 0) None (log_event (Release (RConn 7)) open_world)"

text \<open>An engine whose close call reports that the connection is busy.\<close>

definition busy_close_engine :: engine where
  "busy_close_engine = select_param_engine\<lparr>sqlite3_close := (\<lambda>x. SQLITE_BUSY)\<rparr>"

text \<open>
  Row decoding in the words of the specification: NULL gives the null value, INTEGER and FLOAT
  give a number (an INTEGER through its conversion to a double), TEXT and BLOB give a string with
  the same bytes.
\<close>

definition host_value_of :: "sql_value \<Rightarrow> i_val" where
  "host_value_of v =
     (case v of
        SQLITE_NULL \<Rightarrow> Null
      | SQLITE_INTEGER x \<Rightarrow> Number (double_of_int (sint x))
      | SQLITE_FLOAT d \<Rightarrow> Number d
      | SQLITE_TEXT s \<Rightarrow> Str s
      | SQLITE_BLOB s \<Rightarrow> Str s)"

text \<open>
  The integers that are doubles: \<open>v\<close> is a multiple of the weight of its last kept bit, that is,
  it has at most 53 significant bits (\<open>is_double_iff\<close>). \<open>nearest_double v\<close> is the integer that
  \<open>double_of_int v\<close> denotes.
\<close>

definition is_double :: "int \<Rightarrow> bool" where
  "is_double v = (nat \<bar>v\<bar> mod ulp_of (nat \<bar>v\<bar>) = 0)"

definition nearest_double :: "int \<Rightarrow> int" where
  "nearest_double v =
     (let a = nat \<bar>v\<bar>; u = ulp_of a; q = a div u; r = a mod u;
          q' = (if u < 2 * r \<or> (2 * r = u \<and> odd q) then q + 1 else q)
      in sgn v * int (q' * u))"

section \<open>Facts for evaluation\<close>

lemmas world_defs = alloc_def log_event_def beryl_blame_arg_def beryl_new_string_def
  beryl_table_insert_def blame_sql_error_def sqlite3_finalize_def beryl_release_rows_def
  beryl_tfree_def beryl_release_column_name_def

lemmas code_defs = SQLITE_OK_def SQLITE_ERROR_def SQLITE_BUSY_def SQLITE_TOOBIG_def
  SQLITE_RANGE_def SQLITE_ROW_def SQLITE_DONE_def SQLITE_LIMIT_VARIABLE_NUMBER_def INT_MAX_def

lemmas bridge_defs = beryl_sqldb_object_call_def bind_params.simps bind_i_val_as_sql_param_def
  sqlite3_bind_def sqlite3_column_count_def column_names_loop.simps cstr_to_beryl_str_def
  create_table_from_row_def create_table_from_row_loop.simps unsigned_int_def
  create_table_from_row_column_def create_table_from_row_bytes_def sqlite3_column_def
  sqlite3_column_bytes_def

lemmas example_defs = world0_def example_host_def select_param_engine_def select_param_stmt_def
  select_param_engine_limit_def select_param_stmt_limit_def

lemma double_of_int_exact: "\<bar>v\<bar> < 2 ^ 53 \<Longrightarrow> double_of_int v = of_int v"
proof -
  assume "\<bar>v\<bar> < 2 ^ 53"
  then have "nat \<bar>v\<bar> < 2 ^ 53" by simp
  then have "ulp_of (nat \<bar>v\<bar>) = 1" by (simp add: ulp_of.simps)
  then show ?thesis
    by (cases "0 \<le> v") (simp_all add: double_of_int_def Let_def sgn_if)
qed

lemma first_close:
  "close_callback select_param_engine [Object 0] open_world = Some (Null, closed_world)"
  by (simp add: close_callback_def as_sqldb_object_def open_world_def closed_world_def
      call_sqlite3_close_def select_param_engine_def select_param_engine_limit_def SQLITE_OK_def
      world0_def)

lemma closed_world_handle: "as_sqldb_object closed_world (Object 0) = Some \<lparr>db = None\<rparr>"
  by (simp add: as_sqldb_object_def closed_world_def set_db_def)

section \<open>Closed handles\<close>

lemma closed_handle_call:
  "db db_obj = None \<Longrightarrow>
     beryl_sqldb_object_call h e fuel db_obj args w = Some (Err ''Database has been closed'', w)"
  by (simp add: beryl_sqldb_object_call_def)

text \<open>
  Claim C2: on a handle whose stored connection is null, invoking the handle and
  \<open>get-last-insert-rowid\<close> both fail with the "closed" error and do not reach the engine. The
  invocation does (\<open>closed_handle_call\<close>). \<open>get_last_insert_rowid_callback\<close> has no such check:
  it hands the null pointer to \<open>sqlite3_last_insert_rowid\<close> and returns what the engine answers,
  as "Id out of range" or as a number, never as the "closed" error.
\<close>

theorem rowid_on_closed_handle:
  assumes "as_sqldb_object w v = Some db_obj" and "db db_obj = None"
  shows "get_last_insert_rowid_callback h e (v # rest) w =
           Some (if BERYL_NUM_MAX_INT h < sint (sqlite3_last_insert_rowid e None)
                 then Err ''Id out of range''
                 else Number (double_of_int (sint (sqlite3_last_insert_rowid e None))), w)
         \<and> map_option fst (get_last_insert_rowid_callback h e (v # rest) w)
             \<noteq> Some (Err ''Database has been closed'')"
  using assms by (simp add: get_last_insert_rowid_callback_def Let_def)

theorem rowid_on_closed_handle_witness:
  "as_sqldb_object closed_world (Object 0) = Some \<lparr>db = None\<rparr>
   \<and> db \<lparr>db = None\<rparr> = None
   \<and> get_last_insert_rowid_callback example_host select_param_engine [Object 0] closed_world
       = Some (Number 0, closed_world)"
proof -
  have b: "db \<lparr>db = None\<rparr> = None" by simp
  from rowid_on_closed_handle [OF closed_world_handle b, of example_host select_param_engine "[]"]
    closed_world_handle b
  show ?thesis
    by (simp add: example_host_def select_param_engine_def select_param_engine_limit_def
        double_of_int_exact)
qed

text \<open>
  Claim C3: a second \<open>close\<close> after a successful one fails with the "closed" error and does not
  release the connection again. \<open>close_callback\<close> has no null check either: on a closed handle it
  calls \<open>sqlite3_close\<close> on the null pointer and reports what the engine answers. With the
  engine's no-op answer \<open>SQLITE_OK\<close> the second close succeeds with the null value; it never
  gives the "closed" error. No connection is released by it.
\<close>

theorem second_close_not_refused:
  assumes "as_sqldb_object w v = Some db_obj" and "db db_obj = None"
  shows "close_callback e (v # rest) w =
           Some (if sqlite3_close e None \<noteq> SQLITE_OK then (Err ''Unable to close database'', w)
                 else (Null, set_db v None w))
         \<and> map_option fst (close_callback e (v # rest) w)
             \<noteq> Some (Err ''Database has been closed'')"
  using assms by (simp add: close_callback_def call_sqlite3_close_def Let_def)

theorem second_close_not_refused_witness:
  "close_callback select_param_engine [Object 0] open_world = Some (Null, closed_world)
   \<and> as_sqldb_object closed_world (Object 0) = Some \<lparr>db = None\<rparr>
   \<and> db \<lparr>db = None\<rparr> = None
   \<and> close_callback select_param_engine [Object 0] closed_world = Some (Null, closed_world)
   \<and> trace closed_world = [Release (RConn 7)]"
proof -
  have b: "db \<lparr>db = None\<rparr> = None" by simp
  have c: "set_db (Object 0) None closed_world = closed_world"
    by (simp add: closed_world_def set_db_def)
  have d: "trace closed_world = [Release (RConn 7)]"
    by (simp add: closed_world_def set_db_def log_event_def open_world_def world0_def)
  from second_close_not_refused [OF closed_world_handle b, of select_param_engine "[]"]
    closed_world_handle b c d first_close
  show ?thesis
    by (simp add: select_param_engine_def select_param_engine_limit_def)
qed

section \<open>The parameter limit\<close>

text \<open>
  Claim C5: a parameter count above the engine's maximum bindable parameter count fails with
  "Too many parameters" before any statement is prepared, and a count within the engine's limit
  passes the check. The check compares the count with \<open>SQLITE_LIMIT_VARIABLE_NUMBER\<close>, the
  identifier of the limit category, and not with the engine's limit: every call with more
  parameters than that identifier is refused, also when the engine accepts that many.
\<close>

theorem parameters_within_engine_limit_rejected:
  assumes "db db_obj = Some d"
    and "SQLITE_LIMIT_VARIABLE_NUMBER < length params"
    and "length params \<le> max_variable_number e"
  shows "beryl_sqldb_object_call h e fuel db_obj (Str sql # params) w
           = Some (Err ''Too many parameters'', w)"
  using assms by (simp add: beryl_sqldb_object_call_def)

theorem parameters_within_engine_limit_rejected_witness:
  "db \<lparr>db = Some 0\<rparr> = Some 0
   \<and> SQLITE_LIMIT_VARIABLE_NUMBER < length (replicate 10 Null)
   \<and> length (replicate 10 Null) \<le> max_variable_number select_param_engine
   \<and> beryl_sqldb_object_call example_host select_param_engine 2 \<lparr>db = Some 0\<rparr>
        (Str ''SELECT ?'' # replicate 10 Null) world0
       = Some (Err ''Too many parameters'', world0)"
proof -
  have a: "db \<lparr>db = Some 0\<rparr> = Some 0" by simp
  have b: "SQLITE_LIMIT_VARIABLE_NUMBER < length (replicate 10 Null)"
    by (simp add: SQLITE_LIMIT_VARIABLE_NUMBER_def)
  have c: "length (replicate 10 Null) \<le> max_variable_number select_param_engine"
    by (simp add: select_param_engine_def select_param_engine_limit_def)
  from parameters_within_engine_limit_rejected [OF a b c] a b c show ?thesis by blast
qed

section \<open>Parameter encoding\<close>

text \<open>
  Claim C6: a host value that is not a string, the null value or a number is bound as the literal
  text "Unknown" rather than failing. Such a value is bound as a text and the bind does not fail
  on its variant, but the text in the source is spelled "Unkown".
\<close>

theorem other_variants_bind_unkown:
  "bind_i_val_as_sql_param h stmt i (Array xs) = sqlite3_bind stmt i (BindText ''Unkown'')
   \<and> bind_i_val_as_sql_param h stmt i (Table t) = sqlite3_bind stmt i (BindText ''Unkown'')
   \<and> bind_i_val_as_sql_param h stmt i (Err m) = sqlite3_bind stmt i (BindText ''Unkown'')
   \<and> bind_i_val_as_sql_param h stmt i (ExtFn f) = sqlite3_bind stmt i (BindText ''Unkown'')
   \<and> bind_i_val_as_sql_param h stmt i (Object r) = sqlite3_bind stmt i (BindText ''Unkown'')
   \<and> BindText ''Unkown'' \<noteq> BindText ''Unknown''"
  by (simp add: bind_i_val_as_sql_param_def)

section \<open>Row decoding\<close>

lemma column_value:
  "create_table_from_row_column h v w = (Inr cv, w1) \<Longrightarrow> cv = host_value_of v"
  by (cases v)
    (auto simp: create_table_from_row_column_def create_table_from_row_bytes_def
      beryl_new_string_def sqlite3_column_bytes_def host_value_of_def Let_def
      split: if_splits prod.splits)

lemma column_error:
  "create_table_from_row_column h v w = (Inl er, w1) \<Longrightarrow>
     er = Err ''Text/blob too large'' \<or> er = Err ''Out of memory''"
  by (cases v)
    (auto simp: create_table_from_row_column_def create_table_from_row_bytes_def
      beryl_new_string_def sqlite3_column_bytes_def Let_def
      split: if_splits prod.splits)

lemma loop_table:
  "create_table_from_row_loop h row n cn i acc w = (Some (Table t), w') \<Longrightarrow>
     t = acc @ map (\<lambda>j. (cn ! j, host_value_of (sqlite3_column row j))) [i..<nat n]
     \<and> (if int i < n then nat n \<le> length cn else True)"
proof (induction h row n cn i acc w rule: create_table_from_row_loop.induct)
  case (1 h row n cn i table w)
  show ?case
  proof (cases "int i < n")
    case False
    with "1.prems" show ?thesis
      by (simp add: create_table_from_row_loop.simps)
  next
    case True
    obtain r w1 where c: "create_table_from_row_column h (sqlite3_column row i) w = (r, w1)"
      by (cases "create_table_from_row_column h (sqlite3_column row i) w")
    show ?thesis
    proof (cases r)
      case (Inl er)
      with True c "1.prems" column_error [of h "sqlite3_column row i" w er w1] show ?thesis
        by (auto simp: create_table_from_row_loop.simps)
    next
      case (Inr cv)
      with True c "1.prems" have len: "i < length cn"
        by (auto simp: create_table_from_row_loop.simps split: if_splits)
      with True c Inr "1.prems" have rec:
        "create_table_from_row_loop h row n cn (Suc i) (beryl_table_insert table (cn ! i) cv) w1
           = (Some (Table t), w')"
        by (simp add: create_table_from_row_loop.simps)
      from "1.IH" [OF True c [symmetric] Inr len rec]
      have ih: "t = beryl_table_insert table (cn ! i) cv
                  @ map (\<lambda>j. (cn ! j, host_value_of (sqlite3_column row j))) [Suc i..<nat n]"
        and ih2: "(if int (Suc i) < n then nat n \<le> length cn else True)"
        by simp_all
      from True have up: "[i..<nat n] = i # [Suc i..<nat n]"
        by (simp add: upt_conv_Cons)
      from c Inr have cv: "cv = host_value_of (sqlite3_column row i)"
        by (simp add: column_value)
      from ih2 len True have "nat n \<le> length cn"
        by (cases "int (Suc i) < n") auto
      with ih up cv True show ?thesis
        by (simp add: beryl_table_insert_def)
    qed
  qed
qed

text \<open>
  Claim C7: a successfully decoded row with \<open>n_columns\<close> columns gives a table with exactly
  \<open>n_columns\<close> entries, keyed by the column descriptors in engine column order, whose values
  are the null value for NULL, a number for INTEGER and FLOAT, and a copied string for TEXT and
  BLOB.
\<close>

theorem create_table_from_row_entries:
  assumes "create_table_from_row h row n_columns column_names w = (Some (Table t), w')"
  shows "length t = nat n_columns
         \<and> map fst t = take (nat n_columns) column_names
         \<and> map snd t = map (\<lambda>i. host_value_of (sqlite3_column row i)) [0..<nat n_columns]"
proof -
  from assms obtain w1 where
    "create_table_from_row_loop h row n_columns column_names 0 [] w1 = (Some (Table t), w')"
    by (auto simp: create_table_from_row_def Let_def split: if_splits prod.splits)
  from loop_table [OF this]
  have t: "t = map (\<lambda>j. (column_names ! j, host_value_of (sqlite3_column row j))) [0..<nat n_columns]"
    and len: "nat n_columns \<le> length column_names"
    by (auto split: if_splits)
  from len have "map (\<lambda>j. column_names ! j) [0..<nat n_columns] = take (nat n_columns) column_names"
    by (simp add: list_eq_iff_nth_eq)
  with t show ?thesis
    by (simp add: comp_def)
qed

theorem create_table_from_row_entries_witness:
  "create_table_from_row example_host
     [SQLITE_NULL, SQLITE_INTEGER 5, SQLITE_FLOAT (1 / 2), SQLITE_TEXT ''x'', SQLITE_BLOB ''yz'']
     5 [Str ''a'', Str ''b'', Str ''c'', Str ''d'', Str ''e''] world0
     = (Some (Table [(Str ''a'', Null), (Str ''b'', Number 5), (Str ''c'', Number (1 / 2)),
                     (Str ''d'', Str ''x''), (Str ''e'', Str ''yz'')]), world0)
   \<and> length [(Str ''a'', Null), (Str ''b'', Number 5), (Str ''c'', Number (1 / 2)),
              (Str ''d'', Str ''x''), (Str ''e'', Str ''yz'')] = nat 5"
proof -
  have run: "create_table_from_row example_host
     [SQLITE_NULL, SQLITE_INTEGER 5, SQLITE_FLOAT (1 / 2), SQLITE_TEXT ''x'', SQLITE_BLOB ''yz'']
     5 [Str ''a'', Str ''b'', Str ''c'', Str ''d'', Str ''e''] world0
     = (Some (Table [(Str ''a'', Null), (Str ''b'', Number 5), (Str ''c'', Number (1 / 2)),
                     (Str ''d'', Str ''x''), (Str ''e'', Str ''yz'')]), world0)"
    by (simp add: bridge_defs world_defs example_defs double_of_int_exact)
  from create_table_from_row_entries [OF run] run show ?thesis by blast
qed

section \<open>A failed close\<close>

lemma loop_error:
  "create_table_from_row_loop h row n cn i acc w = (Some (Err m), w') \<Longrightarrow>
     m = ''Text/blob too large'' \<or> m = ''Out of memory''"
proof (induction h row n cn i acc w rule: create_table_from_row_loop.induct)
  case (1 h row n cn i table w)
  show ?case
  proof (cases "int i < n")
    case False
    with "1.prems" show ?thesis
      by (simp add: create_table_from_row_loop.simps)
  next
    case True
    obtain r w1 where c: "create_table_from_row_column h (sqlite3_column row i) w = (r, w1)"
      by (cases "create_table_from_row_column h (sqlite3_column row i) w")
    show ?thesis
    proof (cases r)
      case (Inl er)
      with True c "1.prems" column_error [of h "sqlite3_column row i" w er w1] show ?thesis
        by (auto simp: create_table_from_row_loop.simps)
    next
      case (Inr cv)
      with True c "1.prems" have len: "i < length cn"
        by (auto simp: create_table_from_row_loop.simps split: if_splits)
      with True c Inr "1.prems" have rec:
        "create_table_from_row_loop h row n cn (Suc i) (beryl_table_insert table (cn ! i) cv) w1
           = (Some (Err m), w')"
        by (simp add: create_table_from_row_loop.simps)
      from "1.IH" [OF True c [symmetric] Inr len rec] show ?thesis .
    qed
  qed
qed

lemma create_table_from_row_error:
  "create_table_from_row h row n cn w = (Some (Err m), w') \<Longrightarrow> m \<noteq> ''Database has been closed''"
  by (auto simp: create_table_from_row_def Let_def split: if_splits prod.splits dest: loop_error)

lemma step_loop_error:
  "step_loop h e k n cn rs rows w \<noteq> Some (Inl (Err ''Database has been closed''), w')"
proof (induction rs arbitrary: rows w)
  case Nil
  show ?case by simp
next
  case (Cons a rs)
  obtain res row where a: "a = (res, row)" by (cases a)
  obtain r w1 where c: "create_table_from_row h row n cn w = (r, w1)"
    by (cases "create_table_from_row h row n cn w")
  from a c show ?case
    by (auto simp: Let_def Cons.IH split: if_splits option.splits i_val.splits prod.splits
        dest: create_table_from_row_error)
qed

lemma call_loop_not_closed:
  "beryl_sqldb_object_call_loop h e d args fuel k expr rows w
     \<noteq> Some (Err ''Database has been closed'', w')"
proof (induction fuel arbitrary: k expr rows w)
  case 0
  show ?case by simp
next
  case (Suc fuel)
  show ?case
    by (auto simp: Let_def Suc.IH step_loop_error
        split: if_splits prod.splits sum.splits option.splits)
qed

lemma open_handle_call_not_closed:
  "db db_obj = Some d \<Longrightarrow>
     beryl_sqldb_object_call h e fuel db_obj args w \<noteq> Some (Err ''Database has been closed'', w')"
  by (auto simp: beryl_sqldb_object_call_def Let_def call_loop_not_closed
      split: if_splits prod.splits list.splits i_val.splits)

text \<open>
  Claim C9: when the native close call inside \<open>close\<close> fails on an open handle, \<open>close\<close>
  returns the error "Unable to close database" and leaves the stored connection as it was, so
  that later operations still treat the handle as open: the state is unchanged, and an invocation
  of the handle never answers with the "closed" error.
\<close>

theorem failed_close_keeps_handle:
  assumes "as_sqldb_object w v = Some db_obj" and "db db_obj = Some d"
    and "sqlite3_close e (Some d) \<noteq> SQLITE_OK"
  shows "close_callback e (v # rest) w = Some (Err ''Unable to close database'', w)
         \<and> map_option fst (invoke h e fuel v args w) \<noteq> Some (Err ''Database has been closed'')"
proof -
  from assms have "close_callback e (v # rest) w = Some (Err ''Unable to close database'', w)"
    by (simp add: close_callback_def call_sqlite3_close_def Let_def)
  moreover from assms(1,2)
  have "map_option fst (invoke h e fuel v args w) \<noteq> Some (Err ''Database has been closed'')"
    by (auto simp: invoke_def open_handle_call_not_closed)
  ultimately show ?thesis by simp
qed

theorem failed_close_keeps_handle_witness:
  "as_sqldb_object open_world (Object 0) = Some \<lparr>db = Some 7\<rparr>
   \<and> db \<lparr>db = Some 7\<rparr> = Some 7
   \<and> sqlite3_close busy_close_engine (Some 7) \<noteq> SQLITE_OK
   \<and> close_callback busy_close_engine [Object 0] open_world
       = Some (Err ''Unable to close database'', open_world)
   \<and> map_option fst (invoke example_host busy_close_engine 2 (Object 0) [Str ''SELECT ?'', Null] open_world)
       \<noteq> Some (Err ''Database has been closed'')"
proof -
  have a: "as_sqldb_object open_world (Object 0) = Some \<lparr>db = Some 7\<rparr>"
    by (simp add: as_sqldb_object_def open_world_def)
  have b: "db \<lparr>db = Some 7\<rparr> = Some 7" by simp
  have c: "sqlite3_close busy_close_engine (Some 7) \<noteq> SQLITE_OK"
    by (simp add: busy_close_engine_def SQLITE_BUSY_def SQLITE_OK_def)
  from failed_close_keeps_handle [OF a b c, of "[]" example_host 2 "[Str ''SELECT ?'', Null]"] a b c
  show ?thesis by blast
qed

section \<open>Cleanup on the failure paths of a script call\<close>

lemma trace_blame_sql_error: "trace (blame_sql_error e err w) = trace w"
  by (simp add: blame_sql_error_def beryl_new_string_def alloc_def beryl_blame_arg_def Let_def
      split: list.splits prod.splits)

lemma trace_alloc: "trace (snd (alloc w)) = trace w"
  by (simp add: alloc_def split: list.splits)

text \<open>
  Claim C1: on every failing exit of a script call the statement handle, the column descriptors,
  their buffer and the partial result collection are each released exactly once before the error
  is returned. The compile-error exit returns without releasing the result collection: the
  ownership record of the call ends with its acquisition. Two more exits miss a release: a failed
  row leaves the descriptor buffer (\<open>row_error_keeps_buffer\<close>), and a failed descriptor leaves
  the descriptors made before it (\<open>column_name_failure_keeps_names\<close>).
\<close>

theorem compile_error_keeps_rows:
  assumes "db db_obj = Some d"
    and "length params \<le> SQLITE_LIMIT_VARIABLE_NUMBER"
    and "fst (alloc w)"
    and "expr \<noteq> []"
    and "fst (sqlite3_prepare_v2 e d expr) \<noteq> SQLITE_OK"
  shows "\<exists>w'. beryl_sqldb_object_call h e (Suc fuel) db_obj (Str expr # params) w
                 = Some (Err ''SQL compiler error'', w')
              \<and> trace w' = trace w @ [Acquire RRows]"
proof -
  obtain ok w1 where al: "alloc w = (ok, w1)" by (cases "alloc w")
  with assms(3) have ok: "ok" by simp
  from al have tr: "trace w1 = trace w" using trace_alloc [of w] by simp
  obtain err stmt tail where pr: "sqlite3_prepare_v2 e d expr = (err, stmt, tail)"
    by (cases "sqlite3_prepare_v2 e d expr")
  with assms(5) have err: "err \<noteq> SQLITE_OK" by simp
  from assms(1,2,4) al ok pr err
  have "beryl_sqldb_object_call h e (Suc fuel) db_obj (Str expr # params) w
          = Some (Err ''SQL compiler error'', blame_sql_error e err (log_event (Acquire RRows) w1))"
    by (simp add: beryl_sqldb_object_call_def)
  moreover have "trace (blame_sql_error e err (log_event (Acquire RRows) w1)) = trace w @ [Acquire RRows]"
    by (simp add: trace_blame_sql_error log_event_def tr)
  ultimately show ?thesis by blast
qed

theorem compile_error_keeps_rows_witness:
  "db \<lparr>db = Some 0\<rparr> = Some 0
   \<and> length [Null] \<le> SQLITE_LIMIT_VARIABLE_NUMBER
   \<and> fst (alloc world0)
   \<and> ''SELEC ?'' \<noteq> []
   \<and> fst (sqlite3_prepare_v2 select_param_engine 0 ''SELEC ?'') \<noteq> SQLITE_OK
   \<and> (\<exists>w'. beryl_sqldb_object_call example_host select_param_engine 1 \<lparr>db = Some 0\<rparr>
              [Str ''SELEC ?'', Null] world0 = Some (Err ''SQL compiler error'', w')
           \<and> trace w' = [Acquire RRows])"
proof -
  have a: "db \<lparr>db = Some 0\<rparr> = Some 0" by simp
  have b: "length [Null] \<le> SQLITE_LIMIT_VARIABLE_NUMBER"
    by (simp add: SQLITE_LIMIT_VARIABLE_NUMBER_def)
  have c: "fst (alloc world0)" by (simp add: alloc_def world0_def)
  have d: "''SELEC ?'' \<noteq> []" by simp
  have e: "fst (sqlite3_prepare_v2 select_param_engine 0 ''SELEC ?'') \<noteq> SQLITE_OK"
    by (simp add: select_param_engine_def select_param_engine_limit_def code_defs)
  have t: "trace world0 = []" by (simp add: world0_def)
  from compile_error_keeps_rows [OF a b c d e, of example_host 0] a b c d e t
  show ?thesis by simp
qed

lemma row_error_keeps_buffer:
  "map_option (\<lambda>(r, w). (r, trace w))
     (beryl_sqldb_object_call example_host select_param_engine 2 \<lparr>db = Some 0\<rparr>
        [Str ''SELECT ?'', Null] (world0\<lparr>oom := [False, False, False, True]\<rparr>))
   = Some (Err ''Out of memory'',
       [Acquire RRows, Acquire (RStmt 0), Acquire (RColBuf 0), Acquire (RColName 0 0),
        Release (RStmt 0), Release RRows, Release (RColName 0 0)])"
  by (simp add: bridge_defs world_defs code_defs example_defs numeral_2_eq_2)

lemma column_name_failure_keeps_names:
  "map_option (\<lambda>(r, w). (r, trace w))
     (beryl_sqldb_object_call example_host
        (select_param_engine\<lparr>sqlite3_prepare_v2 :=
           (\<lambda>d sql. (SQLITE_OK, select_param_stmt\<lparr>column_name := [Some ''a'', Some ''b'', None]\<rparr>, []))\<rparr>)
        2 \<lparr>db = Some 0\<rparr> [Str ''SELECT ?'', Null] world0)
   = Some (Err ''Out of memory'',
       [Acquire RRows, Acquire (RStmt 0), Acquire (RColBuf 0), Acquire (RColName 0 0),
        Acquire (RColName 0 1), Release (RColBuf 0), Release (RStmt 0), Release RRows])"
  by (simp add: bridge_defs world_defs code_defs example_defs numeral_2_eq_2)

section \<open>Round trips through \<open>SELECT ?\<close>\<close>


lemma ulp_of_small: "a < 2 ^ 53 \<Longrightarrow> ulp_of a = 1"
  by (simp add: ulp_of.simps)

lemma ulp_of_big: "\<not> a < 2 ^ 53 \<Longrightarrow> ulp_of a = 2 * ulp_of (a div 2)"
  by (subst ulp_of.simps) simp

lemma double_of_int_exact_le: "\<bar>v\<bar> \<le> 2 ^ 53 \<Longrightarrow> double_of_int v = of_int v"
proof (cases "\<bar>v\<bar> < 2 ^ 53")
  case True
  then show ?thesis by (rule double_of_int_exact)
next
  case False
  assume "\<bar>v\<bar> \<le> 2 ^ 53"
  with False have "v = 2 ^ 53 \<or> v = - (2 ^ 53)" by auto
  then show ?thesis
    by (auto simp: double_of_int_def ulp_of_small ulp_of_big Let_def)
qed

lemma sint_32_in_64: "sint (scast (u :: 32 word) :: 64 word) = sint u"
  by (simp add: sint_up_scast is_up)

lemma double_of_int_sint_32: "double_of_int (sint (u :: 32 word)) = real_of_int (sint u)"
proof -
  have "\<bar>sint u\<bar> < 2 ^ 53"
    using sint_ge [of u] sint_lt [of u] by simp
  then show ?thesis by (rule double_of_int_exact)
qed




text \<open>
  A string of 1,000,000,001 bytes passes the guard of the bind and is refused by the engine with
  its default limit; the call fails with "SQL parameter error" as well.
\<close>

lemma string_above_engine_limit:
  "length (replicate 1000000001 (CHR ''a'')) \<le> INT_MAX
   \<and> map_option fst
     (beryl_sqldb_object_call example_host select_param_engine 2 \<lparr>db = Some 0\<rparr>
        [Str ''SELECT ?'', Str (replicate 1000000001 (CHR ''a''))] world0)
     = Some (Err ''SQL parameter error'')"
  by (simp add: bridge_defs world_defs code_defs example_defs numeral_2_eq_2)

text \<open>
  Claim C4: an integer-flagged host number, bound as the parameter of \<open>SELECT ?\<close> and selected
  back, comes back with the same integer value. The bind passes the number to
  \<open>sqlite3_bind_int\<close>, whose parameter is a C \<open>int\<close>: the integer \<open>2^31\<close>, when the host flags
  it as an integer, comes back as the value of some \<open>int\<close>, whatever the platform makes of the
  conversion, and so not as \<open>2^31\<close>. (Integers within the range of \<open>int\<close> do come back
  unchanged, \<open>integer_round_trip_inside_int\<close>, and so do numbers that are not integers,
  \<open>non_integer_round_trip\<close>.)
\<close>

theorem integer_round_trip_outside_int:
  assumes "beryl_is_integer h 2147483648" and "0 < I_SIZE_MAX h" and "oom w = []"
  shows "\<exists>u :: 32 word.
           map_option fst
             (beryl_sqldb_object_call h select_param_engine 2 \<lparr>db = Some d\<rparr>
                [Str ''SELECT ?'', Number 2147483648] w)
           = Some (Array [Table [(Str ''?'', Number (real_of_int (sint u)))]])
           \<and> real_of_int (sint u) \<noteq> 2147483648"
proof -
  let ?u = "int_conv_undefined h 2147483648"
  have "sint ?u < 2 ^ 31" using sint_lt [of ?u] by simp
  then have "real_of_int (sint ?u) < real_of_int (2 ^ 31)" by (simp only: of_int_less_iff)
  then have ne: "real_of_int (sint ?u) \<noteq> 2147483648" by (simp del: of_int_sint)
  from assms have "map_option fst
             (beryl_sqldb_object_call h select_param_engine 2 \<lparr>db = Some d\<rparr>
                [Str ''SELECT ?'', Number 2147483648] w)
           = Some (Array [Table [(Str ''?'', Number (real_of_int (sint ?u)))]])"
    by (simp add: bridge_defs world_defs code_defs select_param_engine_def select_param_stmt_def
      select_param_engine_limit_def select_param_stmt_limit_def
      numeral_2_eq_2 int_of_double_def sint_32_in_64 double_of_int_sint_32)
  with ne show ?thesis by blast
qed

theorem integer_round_trip_outside_int_witness:
  "beryl_is_integer example_host 2147483648 \<and> 0 < I_SIZE_MAX example_host \<and> oom world0 = []
   \<and> (\<exists>u :: 32 word.
           map_option fst
             (beryl_sqldb_object_call example_host select_param_engine 2 \<lparr>db = Some 0\<rparr>
                [Str ''SELECT ?'', Number 2147483648] world0)
           = Some (Array [Table [(Str ''?'', Number (real_of_int (sint u)))]])
           \<and> real_of_int (sint u) \<noteq> 2147483648)"
proof -
  have a: "beryl_is_integer example_host 2147483648" by (simp add: example_host_def)
  have b: "0 < I_SIZE_MAX example_host" by (simp add: example_host_def)
  have c: "oom world0 = []" by (simp add: world0_def)
  from integer_round_trip_outside_int [OF a b c, of 0] a b c show ?thesis by blast
qed

lemma integer_round_trip_inside_int:
  assumes "beryl_is_integer h (real_of_int v)" and "- (2 ^ 31) \<le> v" and "v < 2 ^ 31"
    and "0 < I_SIZE_MAX h" and "oom w = []"
  shows "map_option fst
             (beryl_sqldb_object_call h select_param_engine 2 \<lparr>db = Some d\<rparr>
                [Str ''SELECT ?'', Number (real_of_int v)] w)
           = Some (Array [Table [(Str ''?'', Number (real_of_int v))]])"
proof -
  from assms(2,3) have s: "sint (word_of_int v :: 32 word) = v"
    by (simp add: sint_sbintrunc' signed_take_bit_int_eq_self)
  have t: "int_of_double h (real_of_int v) = word_of_int v"
    using assms(2,3) by (simp add: int_of_double_def)
  have r: "double_of_int (sint (scast (word_of_int v :: 32 word) :: 64 word)) = real_of_int v"
    using double_of_int_sint_32 [of "word_of_int v"] by (simp only: sint_32_in_64 s)
  from assms(1,4,5) show ?thesis
    by (simp add: bridge_defs world_defs code_defs select_param_engine_def select_param_stmt_def
      select_param_engine_limit_def select_param_stmt_limit_def
      numeral_2_eq_2 t r)
qed

lemma non_integer_round_trip:
  assumes "\<not> beryl_is_integer h x" and "0 < I_SIZE_MAX h" and "oom w = []"
  shows "map_option fst
             (beryl_sqldb_object_call h select_param_engine 2 \<lparr>db = Some d\<rparr>
                [Str ''SELECT ?'', Number x] w)
           = Some (Array [Table [(Str ''?'', Number x)]])"
  using assms
  by (simp add: bridge_defs world_defs code_defs select_param_engine_def select_param_stmt_def
      select_param_engine_limit_def select_param_stmt_limit_def
      numeral_2_eq_2)

section \<open>Integer columns\<close>

lemma double_of_int_nearest: "double_of_int v = real_of_int (nearest_double v)"
  by (simp only: double_of_int_def nearest_double_def Let_def)

lemma ulp_of_pow:
  "\<exists>k. ulp_of a = 2 ^ k \<and> a div 2 ^ k < 2 ^ 53 \<and> (0 < k \<longrightarrow> 2 ^ 53 \<le> a div 2 ^ (k - 1))"
proof (induction a rule: ulp_of.induct)
  case (1 a)
  show ?case
  proof (cases "a < 2 ^ 53")
    case True
    then show ?thesis by (intro exI [of _ 0]) (simp add: ulp_of_small)
  next
    case False
    from 1 [OF False] obtain k where k: "ulp_of (a div 2) = 2 ^ k" "a div 2 div 2 ^ k < 2 ^ 53"
      "0 < k \<longrightarrow> 2 ^ 53 \<le> a div 2 div 2 ^ (k - 1)" by blast
    have "ulp_of a = 2 ^ Suc k" using False k(1) by (simp add: ulp_of_big)
    moreover have "a div 2 ^ Suc k < 2 ^ 53" using k(2) by (simp add: div_mult2_eq)
    moreover have "2 ^ 53 \<le> a div 2 ^ k"
    proof (cases k)
      case 0
      with False show ?thesis by simp
    next
      case (Suc j)
      with k(3) show ?thesis by (simp add: div_mult2_eq)
    qed
    ultimately show ?thesis by (intro exI [of _ "Suc k"]) simp
  qed
qed

lemma ulp_of_pos: "0 < ulp_of a"
  using ulp_of_pow [of a] by auto

text \<open>Between two neighbouring multiples of the last kept bit there is no value of 53 bits.\<close>

lemma no_double_between:
  fixes a b m j :: nat
  assumes b: "b = m * 2 ^ j" and m: "m < 2 ^ 53"
    and lo: "(a div ulp_of a) * ulp_of a < b" and hi: "b < (a div ulp_of a + 1) * ulp_of a"
  shows False
proof -
  obtain k where k: "ulp_of a = 2 ^ k" "a div 2 ^ k < 2 ^ 53"
    "0 < k \<longrightarrow> 2 ^ 53 \<le> a div 2 ^ (k - 1)" using ulp_of_pow [of a] by blast
  let ?q = "a div 2 ^ k"
  have "k \<le> j"
  proof (cases k)
    case 0
    then show ?thesis by simp
  next
    case (Suc k')
    with k(3) have "(2::nat) ^ 53 \<le> a div 2 ^ k'" by simp
    then have "(2::nat) ^ 53 * 2 ^ k' \<le> a"
      by (simp add: less_eq_div_iff_mult_less_eq)
    then have "(2::nat) ^ 52 * 2 ^ k \<le> a" using Suc by simp
    then have "(2::nat) ^ 52 \<le> ?q"
      by (simp add: less_eq_div_iff_mult_less_eq)
    then have "(2::nat) ^ 52 * 2 ^ k \<le> ?q * 2 ^ k" by simp
    also have "\<dots> < b" using lo k(1) by simp
    also have "b < 2 ^ 53 * 2 ^ j" using b m by simp
    finally have "(2::nat) ^ (52 + k) < 2 ^ (53 + j)" by (simp add: power_add)
    then have "52 + k < 53 + j" by (simp only: power_strict_increasing_iff one_less_numeral_iff semiring_norm)
    then show ?thesis by simp
  qed
  then have "(2::nat) ^ k dvd 2 ^ j" by (rule le_imp_power_dvd)
  then have "2 ^ k dvd b" using b by simp
  then obtain c where c: "b = 2 ^ k * c" by (auto simp: dvd_def)
  from lo hi k(1) c have "?q * 2 ^ k < c * 2 ^ k" "c * 2 ^ k < (?q + 1) * 2 ^ k"
    by (simp_all only: mult.commute)
  then have "?q < c" "c < ?q + 1" by (simp_all only: mult_less_cancel2)
  then show False by simp
qed

lemma nearest_nat:
  fixes a b m j :: nat
  assumes b: "b = m * 2 ^ j" and m: "m < 2 ^ 53"
  defines "u \<equiv> ulp_of a"
  defines "q \<equiv> a div u" and "r \<equiv> a mod u"
  defines "q' \<equiv> (if u < 2 * r \<or> (2 * r = u \<and> odd q) then q + 1 else q)"
  shows "\<bar>int a - int (q' * u)\<bar> \<le> \<bar>int a - int b\<bar>"
proof -
  have upos: "0 < u" by (simp add: u_def ulp_of_pos)
  have a: "a = q * u + r" by (simp add: q_def r_def)
  have r: "r < u" using upos by (simp add: r_def)
  have ia: "int a = int (q * u) + int r" using a by simp
  have err: "\<bar>int a - int (q' * u)\<bar> \<le> int r" "\<bar>int a - int (q' * u)\<bar> \<le> int u - int r"
    using a r by (auto simp: q'_def algebra_simps)
  consider "b \<le> q * u" | "(q + 1) * u \<le> b" | "q * u < b" "b < (q + 1) * u" by linarith
  then show ?thesis
  proof cases
    case 1
    then have "int b \<le> int (q * u)" by (simp only: of_nat_le_iff)
    with ia err(1) show ?thesis by linarith
  next
    case 2
    then have "int ((q + 1) * u) \<le> int b" by (simp only: of_nat_le_iff)
    moreover have "int ((q + 1) * u) = int (q * u) + int u" by (simp add: algebra_simps)
    ultimately show ?thesis using ia err(2) by linarith
  next
    case 3
    with no_double_between [OF b m, of a] show ?thesis by (simp add: q_def u_def)
  qed
qed

lemma is_double_iff:
  "is_double v \<longleftrightarrow> (\<exists>m j. nat \<bar>v\<bar> = m * 2 ^ j \<and> m < 2 ^ 53)"
proof
  assume "is_double v"
  then have d: "ulp_of (nat \<bar>v\<bar>) dvd nat \<bar>v\<bar>" by (simp add: is_double_def dvd_eq_mod_eq_0)
  obtain k where k: "ulp_of (nat \<bar>v\<bar>) = 2 ^ k" "nat \<bar>v\<bar> div 2 ^ k < 2 ^ 53"
    using ulp_of_pow [of "nat \<bar>v\<bar>"] by blast
  from d k(1) have "nat \<bar>v\<bar> = (nat \<bar>v\<bar> div 2 ^ k) * 2 ^ k" by simp
  with k(2) show "\<exists>m j. nat \<bar>v\<bar> = m * 2 ^ j \<and> m < 2 ^ 53" by blast
next
  assume "\<exists>m j. nat \<bar>v\<bar> = m * 2 ^ j \<and> m < 2 ^ 53"
  then obtain m j where b: "nat \<bar>v\<bar> = m * 2 ^ j" and m: "m < 2 ^ 53" by blast
  let ?a = "nat \<bar>v\<bar>"
  let ?u = "ulp_of ?a"
  let ?q' = "(if ?u < 2 * (?a mod ?u) \<or> (2 * (?a mod ?u) = ?u \<and> odd (?a div ?u))
              then ?a div ?u + 1 else ?a div ?u)"
  from nearest_nat [OF b m, of ?a] have "int ?a = int (?q' * ?u)" by simp
  then have "?a = ?q' * ?u" by (simp only: of_nat_eq_iff)
  then have "?u dvd ?a" by (metis dvd_triv_right)
  then show "is_double v" by (simp add: is_double_def dvd_eq_mod_eq_0)
qed

lemma nearest_double_is_double: "is_double (nearest_double v)"
proof -
  let ?a = "nat \<bar>v\<bar>"
  let ?u = "ulp_of ?a"
  define q' where "q' = (if ?u < 2 * (?a mod ?u) \<or> (2 * (?a mod ?u) = ?u \<and> odd (?a div ?u))
              then ?a div ?u + 1 else ?a div ?u)"
  obtain k where k: "?u = 2 ^ k" "?a div 2 ^ k < 2 ^ 53"
    using ulp_of_pow [of ?a] by blast
  have r: "nearest_double v = sgn v * int (q' * ?u)"
    by (simp only: nearest_double_def Let_def q'_def)
  have abs: "nat \<bar>nearest_double v\<bar> = (if v = 0 then 0 else q' * ?u)"
    unfolding r by (simp add: abs_mult nat_mult_distrib sgn_if)
  have le: "q' \<le> 2 ^ 53" using k by (simp add: q'_def)
  have "\<exists>m j. q' * ?u = m * 2 ^ j \<and> m < 2 ^ 53"
  proof (cases "q' < 2 ^ 53")
    case True
    with k(1) show ?thesis by (intro exI [of _ q'] exI [of _ k]) simp
  next
    case False
    with le have "q' = 2 ^ 53" by simp
    then have "q' * ?u = 1 * 2 ^ (53 + k)" using k(1) by (simp add: power_add)
    then show ?thesis by (intro exI [of _ 1] exI [of _ "53 + k"]) simp
  qed
  moreover have "\<exists>m j. (0::nat) = m * 2 ^ j \<and> m < 2 ^ 53" by (intro exI [of _ 0]) simp
  ultimately show ?thesis unfolding is_double_iff abs by (cases "v = 0") simp_all
qed

lemma nearest_double_nearest:
  assumes "is_double d"
  shows "\<bar>v - nearest_double v\<bar> \<le> \<bar>v - d\<bar>"
proof -
  from assms obtain m j where b: "nat \<bar>d\<bar> = m * 2 ^ j" and m: "m < 2 ^ 53"
    by (auto simp: is_double_iff)
  let ?a = "nat \<bar>v\<bar>"
  let ?u = "ulp_of ?a"
  define q' where "q' = (if ?u < 2 * (?a mod ?u) \<or> (2 * (?a mod ?u) = ?u \<and> odd (?a div ?u))
              then ?a div ?u + 1 else ?a div ?u)"
  from nearest_nat [OF b m, of ?a]
  have n: "\<bar>int ?a - int (q' * ?u)\<bar> \<le> \<bar>int ?a - int (nat \<bar>d\<bar>)\<bar>"
    by (simp only: q'_def)
  have r: "nearest_double v = sgn v * int (q' * ?u)"
    by (simp only: nearest_double_def Let_def q'_def)
  have z: "v = 0 \<Longrightarrow> q' = 0"
    using ulp_of_pos [of 0] by (simp add: q'_def)
  have "\<bar>v - nearest_double v\<bar> = \<bar>int ?a - int (q' * ?u)\<bar>"
  proof (cases v "0::int" rule: linorder_cases)
    case less
    then have s: "sgn v = - 1" and a: "int ?a = - v" by simp_all
    have "\<bar>v - sgn v * X\<bar> = \<bar>- v - X\<bar>" for X :: int
      unfolding s by linarith
    then show ?thesis unfolding r a .
  next
    case equal
    with z show ?thesis unfolding r by simp
  next
    case greater
    then have s: "sgn v = 1" and a: "int ?a = v" by simp_all
    have "\<bar>v - sgn v * X\<bar> = \<bar>v - X\<bar>" for X :: int
      unfolding s by linarith
    then show ?thesis unfolding r a .
  qed
  also have "\<dots> \<le> \<bar>\<bar>v\<bar> - \<bar>d\<bar>\<bar>" using n by simp
  also have "\<dots> \<le> \<bar>v - d\<bar>" by linarith
  finally show ?thesis .
qed

lemma nearest_double_exact_iff: "nearest_double v = v \<longleftrightarrow> is_double v"
proof
  assume "nearest_double v = v"
  with nearest_double_is_double [of v] show "is_double v" by simp
next
  assume "is_double v"
  from nearest_double_nearest [OF this, of v] show "nearest_double v = v" by simp
qed

lemma double_of_int_exact_iff: "double_of_int v = real_of_int v \<longleftrightarrow> is_double v"
  by (simp only: double_of_int_nearest of_int_eq_iff nearest_double_exact_iff)

lemma is_double_small: "\<bar>v\<bar> \<le> 2 ^ 53 \<Longrightarrow> is_double v"
  using double_of_int_exact_le [of v] by (simp add: double_of_int_exact_iff)

text \<open>
  Claim C10, as amended: an INTEGER column value is converted to a double before it becomes a
  host number. The number returned is a nearest double, an integer of at most 53 significant
  bits, so the value is returned exactly if and only if it is itself such an integer: every value
  of magnitude at most \<open>2^53\<close> is, and \<open>2^53 + 1\<close> is not (it is returned as \<open>2^53\<close>). (As
  stated, for every value of larger magnitude, the claim fails: a value that is itself a double is
  returned exactly, as the evaluation after the theorem shows.)
\<close>

theorem integer_column_through_double:
  assumes "fst (alloc w)" and "0 < I_SIZE_MAX h"
  shows "create_table_from_row h [SQLITE_INTEGER x] 1 [key] w
           = (Some (Table [(key, Number (double_of_int (sint x)))]), snd (alloc w))
         \<and> (\<exists>r. double_of_int (sint x) = real_of_int r \<and> is_double r
                \<and> (\<forall>d. is_double d \<longrightarrow> \<bar>sint x - r\<bar> \<le> \<bar>sint x - d\<bar>))
         \<and> (double_of_int (sint x) = real_of_int (sint x) \<longleftrightarrow> is_double (sint x))
         \<and> (is_double (sint x) \<longleftrightarrow> (\<exists>m j. nat \<bar>sint x\<bar> = m * 2 ^ j \<and> m < 2 ^ 53))
         \<and> (\<bar>sint x\<bar> \<le> 2 ^ 53 \<longrightarrow> double_of_int (sint x) = real_of_int (sint x))
         \<and> \<not> is_double (2 ^ 53 + 1)
         \<and> double_of_int (2 ^ 53 + 1) = 2 ^ 53"
proof -
  obtain ok w1 where al: "alloc w = (ok, w1)" by (cases "alloc w")
  with assms have "create_table_from_row h [SQLITE_INTEGER x] 1 [key] w
           = (Some (Table [(key, Number (double_of_int (sint x)))]), snd (alloc w))"
    by (simp add: create_table_from_row_def create_table_from_row_loop.simps unsigned_int_def
        create_table_from_row_column_def sqlite3_column_def beryl_table_insert_def)
  moreover have "\<exists>r. double_of_int (sint x) = real_of_int r \<and> is_double r
                \<and> (\<forall>d. is_double d \<longrightarrow> \<bar>sint x - r\<bar> \<le> \<bar>sint x - d\<bar>)"
    using double_of_int_nearest nearest_double_is_double nearest_double_nearest by blast
  moreover have "double_of_int (2 ^ 53 + 1) = 2 ^ 53"
    by (simp add: double_of_int_def ulp_of_small ulp_of_big Let_def)
  moreover have "\<not> is_double (2 ^ 53 + 1)"
    by (simp add: is_double_def ulp_of_small ulp_of_big)
  moreover note double_of_int_exact_iff [of "sint x"] is_double_iff [of "sint x"]
    double_of_int_exact_le [of "sint x"]
  ultimately show ?thesis by blast
qed

theorem integer_column_through_double_witness:
  "fst (alloc world0) \<and> 0 < I_SIZE_MAX example_host
   \<and> create_table_from_row example_host [SQLITE_INTEGER 9007199254740995] 1 [Str ''a''] world0
       = (Some (Table [(Str ''a'', Number 9007199254740996)]), world0)
   \<and> 2 ^ 53 < \<bar>sint (9007199254740995 :: 64 word)\<bar>
   \<and> \<not> is_double (sint (9007199254740995 :: 64 word))
   \<and> is_double 9007199254740996"
proof -
  have a: "fst (alloc world0)" by (simp add: alloc_def world0_def)
  have b: "0 < I_SIZE_MAX example_host" by (simp add: example_host_def)
  have d: "snd (alloc world0) = world0" by (simp add: alloc_def world0_def)
  have e: "double_of_int (sint (9007199254740995 :: 64 word)) = 9007199254740996"
    by (simp add: double_of_int_def ulp_of_small ulp_of_big Let_def)
  have f: "\<not> is_double (sint (9007199254740995 :: 64 word))" "is_double 9007199254740996"
    by (simp_all add: is_double_def ulp_of_small ulp_of_big)
  from integer_column_through_double [OF a b, of 9007199254740995 "Str ''a''"] a b d e f
  show ?thesis by simp
qed

text \<open>The value \<open>2^53 + 2\<close> lies beyond \<open>2^53\<close> and is returned exactly.\<close>

theorem integer_column_counterexample:
  "2 ^ 53 < \<bar>sint (9007199254740994 :: 64 word)\<bar>
   \<and> create_table_from_row example_host [SQLITE_INTEGER 9007199254740994] 1 [Str ''a''] world0
       = (Some (Table [(Str ''a'', Number (real_of_int (sint (9007199254740994 :: 64 word))))]), world0)"
  by (simp add: bridge_defs world_defs example_defs double_of_int_def ulp_of_small ulp_of_big Let_def)

end
